theory Spec2Isabelle
  imports Main "HOL-Library.Word"
begin

section \<open>Values of the host platform\<close>

text \<open>
  The processors of this package are written against the Node.js \<^verbatim>\<open>Buffer\<close> and
  \<^verbatim>\<open>crypto\<close> APIs. A buffer is a list of bytes; a JavaScript number is an \<^typ>\<open>int\<close>
  (only integral option values and lengths occur); a JavaScript string is a \<^typ>\<open>string\<close>.
\<close>

type_synonym byte = "8 word"
type_synonym buffer = "byte list"

text \<open>
  The errors that can surface: the \<^verbatim>\<open>Error\<close> objects thrown by \<^verbatim>\<open>index.js\<close> (with their
  message), the \<^verbatim>\<open>TypeError\<close> and \<^verbatim>\<open>RangeError\<close> of the language and of the Buffer API.
\<close>

datatype error = Error string | TypeError | RangeError

subsection \<open>Buffer: hexadecimal rendering\<close>

text \<open>\<^verbatim>\<open>buf.toString("hex")\<close>: two lowercase hexadecimal digits per byte.\<close>

definition hexdigit :: "nat \<Rightarrow> char" where
  "hexdigit n = ''0123456789abcdef'' ! n"

definition hex_of_byte :: "byte \<Rightarrow> string" where
  "hex_of_byte b = [hexdigit (unat b div 16), hexdigit (unat b mod 16)]"

definition toString_hex :: "buffer \<Rightarrow> string" where
  "toString_hex buf = concat (map hex_of_byte buf)"

text \<open>
  \<^verbatim>\<open>Buffer.from(s, "hex")\<close>: pairs of hexadecimal digits (either letter case) are decoded
  from the left; decoding stops, without an error, at the first pair that is not two
  hexadecimal digits, and a trailing single character is dropped.
\<close>

definition unhex :: "char \<Rightarrow> nat option" where
  "unhex c =
     (let n = (of_char c :: nat) in
      if 48 \<le> n \<and> n \<le> 57 then Some (n - 48)
      else if 97 \<le> n \<and> n \<le> 102 then Some (n - 87)
      else if 65 \<le> n \<and> n \<le> 70 then Some (n - 55)
      else None)"

fun Buffer_from_hex :: "string \<Rightarrow> buffer" where
  "Buffer_from_hex (a # b # rest) =
     (case unhex a of
        None \<Rightarrow> []
      | Some hi \<Rightarrow>
          (case unhex b of
             None \<Rightarrow> []
           | Some lo \<Rightarrow> of_nat (16 * hi + lo) # Buffer_from_hex rest))"
| "Buffer_from_hex [c] = []"
| "Buffer_from_hex [] = []"

subsection \<open>Buffer: binary (latin1) rendering, slices, copies\<close>

text \<open>\<^verbatim>\<open>buf.toString("binary", start)\<close>: one character per byte, from \<open>start\<close> to the end.\<close>

definition toString_binary :: "buffer \<Rightarrow> nat \<Rightarrow> string" where
  "toString_binary buf start = map (\<lambda>b. char_of (unat b)) (drop start buf)"

text \<open>\<^verbatim>\<open>buf.slice(start, end)\<close> for non-negative bounds: both are clamped to the length.\<close>

definition slice_buffer :: "buffer \<Rightarrow> nat \<Rightarrow> nat \<Rightarrow> buffer" where
  "slice_buffer buf start end = drop start (take end buf)"

text \<open>\<^verbatim>\<open>Buffer.alloc(n)\<close>: \<open>n\<close> zero bytes.\<close>

definition Buffer_alloc :: "nat \<Rightarrow> buffer" where
  "Buffer_alloc n = replicate n 0"

text \<open>
  \<^verbatim>\<open>src.copy(target, targetStart)\<close>: the bytes of \<open>src\<close> overwrite \<open>target\<close> from
  \<open>targetStart\<close> on, as many as fit; the target keeps its length.
\<close>

definition copy :: "buffer \<Rightarrow> buffer \<Rightarrow> nat \<Rightarrow> buffer" where
  "copy src target targetStart =
     take targetStart target
     @ take (length target - targetStart) src
     @ drop (targetStart + length src) target"

subsection \<open>Buffer: unsigned 32-bit big-endian integers\<close>

text \<open>
  \<^verbatim>\<open>buf.readUInt32BE(offset)\<close> throws a \<^verbatim>\<open>RangeError\<close> unless four bytes are available
  at \<open>offset\<close>.
\<close>

definition readUInt32BE :: "buffer \<Rightarrow> nat \<Rightarrow> error + int" where
  "readUInt32BE buf offset =
     (if length buf < offset + 4 then Inl RangeError
      else Inr (uint (buf ! offset) * 16777216
              + uint (buf ! (offset + 1)) * 65536
              + uint (buf ! (offset + 2)) * 256
              + uint (buf ! (offset + 3))))"

text \<open>
  \<^verbatim>\<open>buf.writeUInt32BE(value, offset, true)\<close>: the third argument (the former
  \<^verbatim>\<open>noAssert\<close>) is ignored; a value outside \<open>0 .. 2^32 - 1\<close>, or an offset without four
  bytes, throws a \<^verbatim>\<open>RangeError\<close>.
\<close>

definition writeUInt32BE :: "buffer \<Rightarrow> int \<Rightarrow> nat \<Rightarrow> error + buffer" where
  "writeUInt32BE buf v offset =
     (if v < 0 \<or> 4294967295 < v then Inl RangeError
      else if length buf < offset + 4 then Inl RangeError
      else Inr (take offset buf
                @ [of_int (v div 16777216), of_int (v div 65536),
                   of_int (v div 256), of_int v]
                @ drop (offset + 4) buf))"

section \<open>The encoded record of the KDF processors\<close>

text \<open>
  The body of the derivation callback of \<^verbatim>\<open>hash\<close> (the same text in \<^verbatim>\<open>PBKDF2.js\<close> and
  \<^verbatim>\<open>scrypt.js\<close>): a buffer of \<open>hash.length + salt.length + 8\<close> bytes receives the salt
  length at offset 0, the parameter \<open>param\<close> at offset 4 (\<open>iterations\<close> in PBKDF2,
  \<open>keyLength\<close> in scrypt), the salt at offset 8 and the derived key after it, and is
  rendered in hexadecimal. An exception of \<^verbatim>\<open>writeUInt32BE\<close> leaves the callback.
\<close>

definition encode :: "buffer \<Rightarrow> int \<Rightarrow> buffer \<Rightarrow> error + string" where
  "encode salt param hash =
     (let combined = Buffer_alloc (length hash + length salt + 8) in
      case writeUInt32BE combined (int (length salt)) 0 of
        Inl e \<Rightarrow> Inl e
      | Inr combined1 \<Rightarrow>
          (case writeUInt32BE combined1 param 4 of
             Inl e \<Rightarrow> Inl e
           | Inr combined2 \<Rightarrow>
               (let combined3 = copy salt combined2 8;
                    combined4 = copy hash combined3 (length salt + 8)
                in Inr (toString_hex combined4))))"

text \<open>
  The first statements of \<^verbatim>\<open>compare\<close> (again the same text in both files): what is
  extracted from the stored string before the derivation is called. \<open>hashBytes\<close> is
  \<open>buffer.length - saltBytes - 8\<close>, which is negative when the record is shorter than its
  salt length says.
\<close>

record decoded =
  d_salt :: buffer
  d_hashBytes :: int
  d_iterations :: int
  d_hash :: string

definition decode :: "string \<Rightarrow> error + decoded" where
  "decode stored =
     (let buffer = Buffer_from_hex stored in
      case readUInt32BE buffer 0 of
        Inl e \<Rightarrow> Inl e
      | Inr saltBytes \<Rightarrow>
          (let salt = slice_buffer buffer 8 (nat (saltBytes + 8));
               hashBytes = int (length buffer) - saltBytes - 8
           in case readUInt32BE buffer 4 of
                Inl e \<Rightarrow> Inl e
              | Inr iterations \<Rightarrow>
                  Inr \<lparr> d_salt = salt, d_hashBytes = hashBytes,
                        d_iterations = iterations,
                        d_hash = toString_binary buffer (nat (saltBytes + 8)) \<rparr>))"

section \<open>The crypto module and promises\<close>

text \<open>
  What a callback-style function of the \<^verbatim>\<open>crypto\<close> module does on one call: it throws
  while validating its arguments, or it returns and later invokes the callback it was given
  with an error, or with a buffer.
\<close>

datatype async_result = Throws error | CallbackError error | CallbackOk buffer

text \<open>
  Values that occur as arguments of \<^verbatim>\<open>crypto.scrypt\<close> and as enablement flags of the
  factory. \<open>JFun\<close> is a function (the callback written at the call site).
\<close>

datatype jsval =
    JUndefined | JNull | JBool bool | JNum int | JStr string | JBuf buffer
  | JObj "(string \<times> jsval) list" | JFun

text \<open>
  The module is a parameter of the model. \<open>randomBytes n\<close> is what the entropy source does
  on the call under consideration; \<open>pbkdf2\<close> is called with (password, salt, iterations,
  keylen, digest) and a callback, the salt being \<open>None\<close> when the variable is
  \<^verbatim>\<open>undefined\<close>; \<open>scrypt\<close> receives the list of its arguments as written at the call
  site, since the two call sites of \<^verbatim>\<open>scrypt.js\<close> differ in shape.
\<close>

record crypto =
  randomBytes :: "int \<Rightarrow> async_result"
  pbkdf2 :: "string \<Rightarrow> buffer option \<Rightarrow> int \<Rightarrow> int \<Rightarrow> string \<Rightarrow> async_result"
  scrypt :: "jsval list \<Rightarrow> async_result"

text \<open>
  The state a returned promise reaches. \<open>Uncaught r x\<close>: the exception \<open>x\<close> left a
  callback run by the event loop, where nothing of this package catches it; \<open>r\<close> is the
  reason of a \<^verbatim>\<open>reject\<close> that preceded it (\<open>None\<close>: the promise stays pending).
\<close>

datatype 'a promise = Resolved 'a | Rejected error | Uncaught "error option" error

section \<open>PBKDF2.js\<close>

text \<open>
  An options object with all four keys, and an options object as a caller passes it, where
  each key is present or absent.
\<close>

record pbkdf2_options =
  hashBytes :: int
  saltBytes :: int
  digest :: string
  iterations :: int

record pbkdf2_given =
  given_hashBytes :: "int option"
  given_saltBytes :: "int option"
  given_digest :: "string option"
  given_iterations :: "int option"

definition PBKDF2_defaults :: pbkdf2_options where
  "PBKDF2_defaults =
     \<lparr> hashBytes = 32, saltBytes = 16, digest = ''whirlpool'', iterations = 777777 \<rparr>"

text \<open>\<^verbatim>\<open>Object.assign(target, source)\<close>: every key present in the source replaces.\<close>

definition assign_pbkdf2 :: "pbkdf2_options \<Rightarrow> pbkdf2_given \<Rightarrow> pbkdf2_options" where
  "assign_pbkdf2 target source =
     \<lparr> hashBytes = (case given_hashBytes source of Some v \<Rightarrow> v | None \<Rightarrow> hashBytes target),
       saltBytes = (case given_saltBytes source of Some v \<Rightarrow> v | None \<Rightarrow> saltBytes target),
       digest = (case given_digest source of Some v \<Rightarrow> v | None \<Rightarrow> digest target),
       iterations = (case given_iterations source of Some v \<Rightarrow> v | None \<Rightarrow> iterations target) \<rparr>"

text \<open>
  The constructor computes \<^verbatim>\<open>this.options\<close>. The argument is \<open>None\<close> when it is falsy or
  not an object. \<^verbatim>\<open>Object.assign({}, defaults)\<close> is a copy of the defaults.
\<close>

definition PBKDF2_constructor :: "pbkdf2_given option \<Rightarrow> pbkdf2_options" where
  "PBKDF2_constructor options =
     (case options of
        Some opts \<Rightarrow> assign_pbkdf2 PBKDF2_defaults opts
      | None \<Rightarrow> PBKDF2_defaults)"

text \<open>The options \<^verbatim>\<open>hash\<close> works with (\<^verbatim>\<open>temporalOptions\<close>).\<close>

definition PBKDF2_temporalOptions :: "pbkdf2_options \<Rightarrow> pbkdf2_given option \<Rightarrow> pbkdf2_options" where
  "PBKDF2_temporalOptions this_options options =
     (case options of
        Some opts \<Rightarrow> assign_pbkdf2 PBKDF2_defaults opts
      | None \<Rightarrow> this_options)"

text \<open>
  \<^verbatim>\<open>hash\<close>. When the salt cannot be generated the promise is rejected, but the function
  goes on (there is no \<^verbatim>\<open>return\<close>) and calls the derivation with an undefined salt.
  When the derivation reports an error to the callback, the callback rejects and then reads
  \<^verbatim>\<open>hash.length\<close> of \<^verbatim>\<open>undefined\<close>.
\<close>

definition PBKDF2_hash ::
    "crypto \<Rightarrow> pbkdf2_options \<Rightarrow> string \<Rightarrow> pbkdf2_given option \<Rightarrow> string promise" where
  "PBKDF2_hash C this_options password options =
     (let temporalOptions = PBKDF2_temporalOptions this_options options;
          without_salt = (\<lambda>e.
            case pbkdf2 C password None (iterations temporalOptions)
                   (hashBytes temporalOptions) (digest temporalOptions) of
              Throws e' \<Rightarrow> Rejected e
            | CallbackError e' \<Rightarrow> Uncaught (Some e) TypeError
            | CallbackOk hash \<Rightarrow> Uncaught (Some e) TypeError)
      in case randomBytes C (saltBytes temporalOptions) of
           Throws e \<Rightarrow> without_salt e
         | CallbackError e \<Rightarrow> without_salt e
         | CallbackOk salt \<Rightarrow>
             (case pbkdf2 C password (Some salt) (iterations temporalOptions)
                     (hashBytes temporalOptions) (digest temporalOptions) of
                Throws e \<Rightarrow> Rejected e
              | CallbackError e \<Rightarrow> Uncaught (Some e) TypeError
              | CallbackOk hash \<Rightarrow>
                  (case encode salt (iterations temporalOptions) hash of
                     Inl e \<Rightarrow> Uncaught None e
                   | Inr hashed \<Rightarrow> Resolved hashed)))"

text \<open>
  \<^verbatim>\<open>compare\<close>. An exception of the statements of the executor, or of the call of
  \<^verbatim>\<open>crypto.pbkdf2\<close>, rejects the promise. The digest is \<^verbatim>\<open>defaults.digest\<close>.
\<close>

definition PBKDF2_compare :: "crypto \<Rightarrow> string \<Rightarrow> string \<Rightarrow> bool promise" where
  "PBKDF2_compare C incoming stored =
     (case decode stored of
        Inl e \<Rightarrow> Rejected e
      | Inr d \<Rightarrow>
          (case pbkdf2 C incoming (Some (d_salt d)) (d_iterations d) (d_hashBytes d)
                  (digest PBKDF2_defaults) of
             Throws e \<Rightarrow> Rejected e
           | CallbackError e \<Rightarrow> Uncaught (Some e) TypeError
           | CallbackOk verify \<Rightarrow> Resolved (toString_binary verify 0 = d_hash d)))"

section \<open>scrypt.js\<close>

record scrypt_options =
  keyLength :: int
  scrypt_saltBytes :: int
  cost :: int
  blockSize :: int
  parallelization :: int
  maxmem :: int

record scrypt_given =
  given_keyLength :: "int option"
  given_scrypt_saltBytes :: "int option"
  given_cost :: "int option"
  given_blockSize :: "int option"
  given_parallelization :: "int option"
  given_maxmem :: "int option"

definition scrypt_defaults :: scrypt_options where
  "scrypt_defaults =
     \<lparr> keyLength = 64, scrypt_saltBytes = 16, cost = 16384, blockSize = 8,
       parallelization = 1, maxmem = 32 * 1024 * 1024 \<rparr>"

definition assign_scrypt :: "scrypt_options \<Rightarrow> scrypt_given \<Rightarrow> scrypt_options" where
  "assign_scrypt target source =
     \<lparr> keyLength = (case given_keyLength source of Some v \<Rightarrow> v | None \<Rightarrow> keyLength target),
       scrypt_saltBytes =
         (case given_scrypt_saltBytes source of Some v \<Rightarrow> v | None \<Rightarrow> scrypt_saltBytes target),
       cost = (case given_cost source of Some v \<Rightarrow> v | None \<Rightarrow> cost target),
       blockSize = (case given_blockSize source of Some v \<Rightarrow> v | None \<Rightarrow> blockSize target),
       parallelization =
         (case given_parallelization source of Some v \<Rightarrow> v | None \<Rightarrow> parallelization target),
       maxmem = (case given_maxmem source of Some v \<Rightarrow> v | None \<Rightarrow> maxmem target) \<rparr>"

definition scrypt_constructor :: "scrypt_given option \<Rightarrow> scrypt_options" where
  "scrypt_constructor options =
     (case options of
        Some opts \<Rightarrow> assign_scrypt scrypt_defaults opts
      | None \<Rightarrow> scrypt_defaults)"

definition scrypt_temporalOptions :: "scrypt_options \<Rightarrow> scrypt_given option \<Rightarrow> scrypt_options" where
  "scrypt_temporalOptions this_options options =
     (case options of
        Some opts \<Rightarrow> assign_scrypt scrypt_defaults opts
      | None \<Rightarrow> this_options)"

text \<open>
  The arguments of the call of \<^verbatim>\<open>crypto.scrypt\<close> in \<^verbatim>\<open>hash\<close>: password, salt, key
  length, an object with the keys \<open>cost\<close>, \<open>blockSize\<close> and \<open>parallelization\<close>, callback.
\<close>

definition scrypt_hash_arguments :: "scrypt_options \<Rightarrow> string \<Rightarrow> buffer \<Rightarrow> jsval list" where
  "scrypt_hash_arguments temporalOptions password salt =
     [JStr password, JBuf salt, JNum (keyLength temporalOptions),
      JObj [(''cost'', JNum (cost temporalOptions)),
            (''blockSize'', JNum (blockSize temporalOptions)),
            (''parallelization'', JNum (parallelization temporalOptions))],
      JFun]"

text \<open>\<^verbatim>\<open>hash\<close>: here every failure path returns after rejecting.\<close>

definition scrypt_hash ::
    "crypto \<Rightarrow> scrypt_options \<Rightarrow> string \<Rightarrow> scrypt_given option \<Rightarrow> string promise" where
  "scrypt_hash C this_options password options =
     (let temporalOptions = scrypt_temporalOptions this_options options
      in case randomBytes C (scrypt_saltBytes temporalOptions) of
           Throws e \<Rightarrow> Rejected e
         | CallbackError e \<Rightarrow> Rejected e
         | CallbackOk salt \<Rightarrow>
             (case scrypt C (scrypt_hash_arguments temporalOptions password salt) of
                Throws e \<Rightarrow> Rejected e
              | CallbackError e \<Rightarrow> Rejected e
              | CallbackOk hash \<Rightarrow>
                  (case encode salt (keyLength temporalOptions) hash of
                     Inl e \<Rightarrow> Uncaught None e
                   | Inr hashed \<Rightarrow> Resolved hashed)))"

text \<open>
  The arguments of the call of \<^verbatim>\<open>crypto.scrypt\<close> in \<^verbatim>\<open>compare\<close>: incoming, salt,
  \<open>iterations\<close> (the number read at offset 4), \<open>hashBytes\<close>, \<open>digest\<close>, callback. The
  \<open>digest\<close> is \<^verbatim>\<open>defaults.digest\<close>, a key the defaults of this file do not have:
  \<^verbatim>\<open>undefined\<close>.
\<close>

definition scrypt_compare_arguments :: "string \<Rightarrow> decoded \<Rightarrow> jsval list" where
  "scrypt_compare_arguments incoming d =
     [JStr incoming, JBuf (d_salt d), JNum (d_iterations d), JNum (d_hashBytes d),
      JUndefined, JFun]"

definition scrypt_compare :: "crypto \<Rightarrow> string \<Rightarrow> string \<Rightarrow> bool promise" where
  "scrypt_compare C incoming stored =
     (case decode stored of
        Inl e \<Rightarrow> Rejected e
      | Inr d \<Rightarrow>
          (case scrypt C (scrypt_compare_arguments incoming d) of
             Throws e \<Rightarrow> Rejected e
           | CallbackError e \<Rightarrow> Rejected e
           | CallbackOk verify \<Rightarrow> Resolved (toString_binary verify 0 = d_hash d)))"

section \<open>index.js\<close>

datatype backend = Argon2 | Bcrypt | PBKDF2 | Scrypt

text \<open>
  What the factory can hand out and what can be made of it: the class
  \<^verbatim>\<open>class UserCredentialProcessor extends B {}\<close> of a backend \<open>B\<close>, and an object created
  from that class with \<^verbatim>\<open>new\<close>.
\<close>

datatype processor = ProcessorClass backend | ProcessorInstance backend

text \<open>
  Property lookup for the two method names. The four backend classes declare \<open>hash\<close> and
  \<open>compare\<close> as instance methods, so they are found through the prototype of an instance,
  not on the class itself.
\<close>

fun has_method :: "processor \<Rightarrow> string \<Rightarrow> bool" where
  "has_method (ProcessorInstance b) name = (name = ''hash'' \<or> name = ''compare'')"
| "has_method (ProcessorClass b) name = False"

text \<open>\<^verbatim>\<open>new P(options)\<close>: only a class can be instantiated.\<close>

fun new :: "processor \<Rightarrow> error + processor" where
  "new (ProcessorClass b) = Inr (ProcessorInstance b)"
| "new (ProcessorInstance b) = Inl TypeError"

text \<open>\<^verbatim>\<open>!!v\<close>\<close>

fun truthy :: "jsval \<Rightarrow> bool" where
  "truthy JUndefined = False"
| "truthy JNull = False"
| "truthy (JBool b) = b"
| "truthy (JNum n) = (n \<noteq> 0)"
| "truthy (JStr s) = (s \<noteq> [])"
| "truthy (JBuf b) = True"
| "truthy (JObj kvs) = True"
| "truthy JFun = True"

text \<open>
  \<^verbatim>\<open>String.prototype.toLowerCase\<close> on characters read as Latin-1 code points: the letters
  \<open>A\<close> to \<open>Z\<close> and the accented capitals \<open>0xC0\<close> to \<open>0xDE\<close> (without the multiplication
  sign \<open>0xD7\<close>) move up by 32.
\<close>

definition toLowerCase_char :: "char \<Rightarrow> char" where
  "toLowerCase_char c =
     (let n = (of_char c :: nat) in
      if 65 \<le> n \<and> n \<le> 90 then char_of (n + 32)
      else if 192 \<le> n \<and> n \<le> 214 then char_of (n + 32)
      else if 216 \<le> n \<and> n \<le> 222 then char_of (n + 32)
      else c)"

definition toLowerCase :: "string \<Rightarrow> string" where
  "toLowerCase s = map toLowerCase_char s"

text \<open>
  The configuration object is the list of its own properties in enumeration order.
  \<^verbatim>\<open>Object.keys\<close> lists the keys, \<open>get\<close> reads a property.
\<close>

type_synonym js_object = "(string \<times> jsval) list"

definition Object_keys :: "js_object \<Rightarrow> string list" where
  "Object_keys obj = map fst obj"

definition get :: "js_object \<Rightarrow> string \<Rightarrow> jsval" where
  "get obj key = (case map_of obj key of Some v \<Rightarrow> v | None \<Rightarrow> JUndefined)"

text \<open>The enabled algorithms: \<^verbatim>\<open>Object.keys(hashingAlgorithm).filter(...)\<close>.\<close>

definition enabled :: "js_object \<Rightarrow> string list" where
  "enabled hashingAlgorithm =
     filter (\<lambda>key. truthy (get hashingAlgorithm key)) (Object_keys hashingAlgorithm)"

text \<open>
  The exported function. With no enabled algorithm, \<^verbatim>\<open>algorithm[0]\<close> is \<^verbatim>\<open>undefined\<close>
  and the call of \<^verbatim>\<open>toLowerCase\<close> on it is a \<^verbatim>\<open>TypeError\<close>.
\<close>

definition UserCredentialProcessor :: "js_object \<Rightarrow> error + processor" where
  "UserCredentialProcessor hashingAlgorithm =
     (let algorithm = enabled hashingAlgorithm in
      if 1 < length algorithm
      then Inl (Error ''UserCredentialProcessor: More than one algorithm enabled. '')
      else (case algorithm of
              [] \<Rightarrow> Inl TypeError
            | key # rest \<Rightarrow>
                (let normalizedAlgorithm = toLowerCase key in
                 if normalizedAlgorithm = ''argon2'' then Inr (ProcessorClass Argon2)
                 else if normalizedAlgorithm = ''bcrypt'' then Inr (ProcessorClass Bcrypt)
                 else if normalizedAlgorithm = ''pbkdf2'' then Inr (ProcessorClass PBKDF2)
                 else if normalizedAlgorithm = ''scrypt'' then Inr (ProcessorClass Scrypt)
                 else Inl (Error ''UserCredentialProcessor: Unknown algorithm''))))"

text \<open>The four names the \<^verbatim>\<open>switch\<close> statement of the factory knows.\<close>

fun backend_name :: "backend \<Rightarrow> string" where
  "backend_name Argon2 = ''argon2''"
| "backend_name Bcrypt = ''bcrypt''"
| "backend_name PBKDF2 = ''pbkdf2''"
| "backend_name Scrypt = ''scrypt''"

section \<open>The record layout in the words of the specification\<close>

text \<open>
  The specification describes the stored form as
  \<open>hex(uint32be(saltLen) || uint32be(costParam) || salt || derivedKey)\<close>. These two
  definitions follow that sentence; the theorems below compare them with \<open>encode\<close> and
  \<open>decode\<close>.
\<close>

definition uint32be :: "int \<Rightarrow> buffer" where
  "uint32be v =
     [of_int (v div 16777216), of_int (v div 65536), of_int (v div 256), of_int v]"

definition record_layout :: "buffer \<Rightarrow> int \<Rightarrow> buffer \<Rightarrow> buffer" where
  "record_layout salt param key = uint32be (int (length salt)) @ uint32be param @ salt @ key"

text \<open>A string of valid hex: an even number of characters, all hexadecimal digits.\<close>

definition is_hex :: "string \<Rightarrow> bool" where
  "is_hex s = (even (length s) \<and> list_all (\<lambda>c. unhex c \<noteq> None) s)"

section \<open>A test double of the crypto module\<close>

text \<open>
  A deterministic stand-in for the \<^verbatim>\<open>crypto\<close> module, on which the processors can be
  run. It keeps the interface of the real functions: \<open>randomBytes\<close> yields as many bytes
  as asked; \<open>pbkdf2\<close> wants a salt, a positive iteration count and a non-negative key
  length, and yields \<open>keylen\<close> bytes that depend on all its inputs; \<open>scrypt\<close> has the
  signature \<^verbatim>\<open>scrypt(password, salt, keylen[, options], callback)\<close>, the fourth argument
  being the callback when there is no fifth, and throws when its callback is not a function.
\<close>

definition argument :: "jsval list \<Rightarrow> nat \<Rightarrow> jsval" where
  "argument args i = (if i < length args then args ! i else JUndefined)"

definition test_randomBytes :: "int \<Rightarrow> async_result" where
  "test_randomBytes n =
     (if n < 0 then Throws RangeError else CallbackOk (replicate (nat n) 165))"

definition test_pbkdf2 ::
    "string \<Rightarrow> buffer option \<Rightarrow> int \<Rightarrow> int \<Rightarrow> string \<Rightarrow> async_result" where
  "test_pbkdf2 password salt rounds keylen algorithm =
     (case salt of
        None \<Rightarrow> Throws TypeError
      | Some s \<Rightarrow>
          if keylen < 0 \<or> rounds < 1 then Throws RangeError
          else CallbackOk (replicate (nat keylen)
                 (of_nat (length password + length s + length algorithm) + of_int rounds)))"

definition test_scrypt :: "jsval list \<Rightarrow> async_result" where
  "test_scrypt args =
     (let callback = (if argument args 4 = JUndefined then argument args 3 else argument args 4)
      in if callback \<noteq> JFun then Throws TypeError
         else (case (argument args 0, argument args 1, argument args 2) of
                 (JStr password, JBuf salt, JNum keylen) \<Rightarrow>
                   if keylen < 0 then Throws RangeError
                   else CallbackOk (replicate (nat keylen) (of_nat (length password + length salt)))
               | _ \<Rightarrow> Throws TypeError))"

definition test_crypto :: crypto where
  "test_crypto =
     \<lparr> randomBytes = test_randomBytes, pbkdf2 = test_pbkdf2, scrypt = test_scrypt \<rparr>"

section \<open>The codec\<close>

subsection \<open>Hexadecimal rendering can be undone\<close>

lemma unhex_hexdigit_upto: "list_all (\<lambda>n. unhex (hexdigit n) = Some n) [0..<16]"
  by code_simp

lemma unhex_hexdigit: "n < 16 \<Longrightarrow> unhex (hexdigit n) = Some n"
  using unhex_hexdigit_upto by (simp add: list_all_iff del: upt_Suc)

lemma Buffer_from_hex_toString_hex: "Buffer_from_hex (toString_hex buf) = buf"
proof (induction buf)
  case Nil
  then show ?case by (simp add: toString_hex_def)
next
  case (Cons b buf)
  have "unat b < 256" using unsigned_less [of b] by simp
  then have hi: "unat b div 16 < 16" by simp
  have lo: "unat b mod 16 < 16" by simp
  show ?case
    using Cons
    by (simp add: toString_hex_def hex_of_byte_def unhex_hexdigit [OF hi] unhex_hexdigit [OF lo])
qed

lemma toString_binary_inject: "toString_binary a 0 = toString_binary b 0 \<longleftrightarrow> a = b"
proof -
  have "inj (\<lambda>b::byte. char_of (unat b))"
  proof (rule injI)
    fix x y :: byte
    assume "char_of (unat x) = char_of (unat y)"
    then have "of_char (char_of (unat x)) = (of_char (char_of (unat y)) :: nat)" by simp
    moreover have "unat x < 256" "unat y < 256"
      using unsigned_less [of x] unsigned_less [of y] by simp_all
    ultimately have "unat x = unat y" by (simp add: of_char_of)
    then show "x = y" by (simp add: word_unat_eq_iff)
  qed
  then show ?thesis
    by (auto simp: toString_binary_def dest: inj_mapD)
qed

subsection \<open>Reading and writing 32-bit integers\<close>

lemma length_uint32be [simp]: "length (uint32be v) = 4"
  by (simp add: uint32be_def)

lemma uint_byte_of_int: "uint (of_int k :: byte) = k mod 256"
  by (simp add: uint_word_of_int)

lemma four_bytes_value:
  assumes "0 \<le> v" "v < 4294967296"
  shows "(v div 16777216) mod 256 * 16777216 + (v div 65536) mod 256 * 65536
         + (v div 256) mod 256 * 256 + v mod 256 = (v::int)"
proof -
  have a: "v = (v div 256) * 256 + v mod 256" by simp
  have b: "v div 256 = (v div 256 div 256) * 256 + (v div 256) mod 256" by simp
  have c: "v div 256 div 256 = (v div 256 div 256 div 256) * 256 + (v div 256 div 256) mod 256"
    by simp
  have d: "v div 256 div 256 div 256 < 256" using assms by simp
  have e: "0 \<le> v div 256 div 256 div 256" using assms by simp
  have f: "(v div 256 div 256 div 256) mod 256 = v div 256 div 256 div 256"
    using d e by simp
  have g: "v div 65536 = v div 256 div 256" "v div 16777216 = v div 256 div 256 div 256"
    by (simp_all add: div_mult2_eq [symmetric])
  show ?thesis unfolding g f using a b c by linarith
qed

lemma nth_uint32be:
  "(pre @ uint32be v @ rest) ! (length pre) = of_int (v div 16777216)"
  "(pre @ uint32be v @ rest) ! (length pre + 1) = of_int (v div 65536)"
  "(pre @ uint32be v @ rest) ! (length pre + 2) = of_int (v div 256)"
  "(pre @ uint32be v @ rest) ! (length pre + 3) = of_int v"
  by (simp_all add: uint32be_def nth_append)

lemma readUInt32BE_uint32be:
  assumes "0 \<le> v" "v < 4294967296"
  shows "readUInt32BE (pre @ uint32be v @ rest) (length pre) = Inr v"
proof -
  have len: "\<not> length (pre @ uint32be v @ rest) < length pre + 4" by simp
  show ?thesis
    unfolding readUInt32BE_def nth_uint32be uint_byte_of_int if_not_P [OF len]
    by (rule arg_cong [where f=Inr]) (rule four_bytes_value [OF assms])
qed

lemma writeUInt32BE_uint32be:
  assumes "0 \<le> v" "v < 4294967296" "offset + 4 \<le> length buf"
  shows "writeUInt32BE buf v offset
         = Inr (take offset buf @ uint32be v @ drop (offset + 4) buf)"
proof -
  have a: "\<not> (v < 0 \<or> 4294967295 < v)" using assms(1,2) by linarith
  have b: "\<not> length buf < offset + 4" using assms(3) by linarith
  show ?thesis
    unfolding writeUInt32BE_def uint32be_def if_not_P [OF a] if_not_P [OF b] ..
qed

lemma writeUInt32BE_Inr:
  "writeUInt32BE buf v offset = Inr buf' \<Longrightarrow> 0 \<le> v \<and> v < 4294967296"
  by (auto simp: writeUInt32BE_def split: if_splits)

subsection \<open>The record that \<open>encode\<close> builds, and what \<open>decode\<close> reads from it\<close>

lemma encode_layout:
  assumes "length salt < 4294967296" "0 \<le> param" "param < 4294967296"
  shows "encode salt param hash = Inr (toString_hex (record_layout salt param hash))"
proof -
  let ?n = "length hash + length salt + 8"
  let ?l = "uint32be (int (length salt))"
  have s: "int (length salt) < 4294967296" using assms(1) by linarith
  have w1: "writeUInt32BE (Buffer_alloc ?n) (int (length salt)) 0
            = Inr (?l @ replicate (length hash + length salt + 4) 0)"
    using s by (subst writeUInt32BE_uint32be) (simp_all add: Buffer_alloc_def)
  have w2: "writeUInt32BE (?l @ replicate (length hash + length salt + 4) 0) param 4
            = Inr (?l @ uint32be param @ replicate (length hash + length salt) 0)"
    using assms(2,3) by (subst writeUInt32BE_uint32be) simp_all
  have c1: "copy salt (?l @ uint32be param @ replicate (length hash + length salt) 0) 8
            = ?l @ uint32be param @ salt @ replicate (length hash) 0"
    by (simp add: copy_def)
  have c2: "copy hash (?l @ uint32be param @ salt @ replicate (length hash) 0) (length salt + 8)
            = ?l @ uint32be param @ salt @ hash"
    by (simp add: copy_def)
  show ?thesis
    by (simp add: encode_def Let_def w1 w2 c1 c2 record_layout_def)
qed

lemma encode_Inr:
  assumes "encode salt param hash = Inr stored"
  shows "length salt < 4294967296 \<and> 0 \<le> param \<and> param < 4294967296
         \<and> stored = toString_hex (record_layout salt param hash)"
proof -
  from assms obtain b1 b2 where
    w1: "writeUInt32BE (Buffer_alloc (length hash + length salt + 8)) (int (length salt)) 0 = Inr b1"
    and w2: "writeUInt32BE b1 param 4 = Inr b2"
    by (auto simp: encode_def Let_def split: sum.splits)
  from writeUInt32BE_Inr [OF w1] have s: "length salt < 4294967296" by linarith
  from writeUInt32BE_Inr [OF w2] have p: "0 \<le> param" "param < 4294967296" by simp_all
  from encode_layout [OF s p] assms show ?thesis using s p by simp
qed

lemma decode_layout:
  assumes "length salt < 4294967296" "0 \<le> param" "param < 4294967296"
  shows "decode (toString_hex (record_layout salt param key))
         = Inr \<lparr> d_salt = salt, d_hashBytes = int (length key), d_iterations = param,
                 d_hash = toString_binary key 0 \<rparr>"
proof -
  let ?buf = "uint32be (int (length salt)) @ uint32be param @ salt @ key"
  have s: "int (length salt) < 4294967296" using assms(1) by linarith
  have r0: "readUInt32BE ?buf 0 = Inr (int (length salt))"
    using readUInt32BE_uint32be [of "int (length salt)" "[]"] s by simp
  have r4: "readUInt32BE ?buf 4 = Inr param"
    using readUInt32BE_uint32be [OF assms(2,3), of "uint32be (int (length salt))"] by simp
  have n: "nat (int (length salt) + 8) = length salt + 8" by simp
  have sl: "slice_buffer ?buf 8 (length salt + 8) = salt"
    by (simp add: slice_buffer_def)
  have bin: "toString_binary ?buf (length salt + 8) = toString_binary key 0"
    by (simp add: toString_binary_def)
  show ?thesis
    unfolding decode_def record_layout_def Buffer_from_hex_toString_hex Let_def r0 r4
    by (simp add: n sl bin)
qed

text \<open>
  C2. For a salt \<open>S\<close> shorter than \<open>2^32\<close> bytes (so for 1 to 64 bytes), any derived key \<open>K\<close>
  (so for 1 to 128 bytes) and a cost parameter \<open>C\<close> from 0 to \<open>2^32 - 1\<close>, the record
  encoded by \<open>hash\<close> is the hexadecimal rendering of
  \<open>uint32be(len(S)) || uint32be(C) || S || K\<close>, and what \<open>compare\<close> decodes from it is
  \<open>S\<close>, \<open>C\<close>, the length of \<open>K\<close> and \<open>K\<close> itself, as the binary string that no other key
  has.
\<close>

theorem decode_encode:
  assumes "length S < 4294967296" and "0 \<le> C" and "C < 4294967296"
  shows "\<exists>stored.
           encode S C K = Inr stored
         \<and> stored = toString_hex (uint32be (int (length S)) @ uint32be C @ S @ K)
         \<and> decode stored
             = Inr \<lparr> d_salt = S, d_hashBytes = int (length K), d_iterations = C,
                     d_hash = toString_binary K 0 \<rparr>
         \<and> (\<forall>K'. toString_binary K' 0 = toString_binary K 0 \<longrightarrow> K' = K)"
  using encode_layout [OF assms] decode_layout [OF assms]
  by (simp add: toString_binary_inject record_layout_def)

theorem decode_encode_witness:
  "length [1, 2 :: byte] < 4294967296 \<and> (0::int) \<le> 1000 \<and> (1000::int) < 4294967296
   \<and> encode [1, 2] 1000 [17, 255, 3] = Inr ''00000002000003e8010211ff03''
   \<and> decode ''00000002000003e8010211ff03''
       = Inr \<lparr> d_salt = [1, 2], d_hashBytes = 3, d_iterations = 1000,
               d_hash = toString_binary [17, 255, 3] 0 \<rparr>"
proof -
  have h: "length [1, 2 :: byte] < 4294967296" "(0::int) \<le> 1000" "(1000::int) < 4294967296"
    by simp_all
  have hex: "toString_hex (uint32be (int (length [1, 2 :: byte])) @ uint32be 1000 @ [1, 2] @ [17, 255, 3])
             = ''00000002000003e8010211ff03''"
    by code_simp
  from decode_encode [OF h, of "[17, 255, 3]"] show ?thesis
    using h unfolding hex by auto
qed

section \<open>Options\<close>

text \<open>
  C4, as the claim states it, fails: a processor constructed with \<open>iterations: 1000\<close>
  whose \<open>hash\<close> is called with the options \<open>{hashBytes: 16}\<close> works with the built-in
  777777 iterations, not with the 1000 of the constructor.
\<close>

theorem hash_options_fallback_counterexample:
  "iterations (PBKDF2_constructor (Some \<lparr> given_hashBytes = None, given_saltBytes = None,
       given_digest = None, given_iterations = Some 1000 \<rparr>)) = 1000
   \<and> iterations (PBKDF2_temporalOptions
        (PBKDF2_constructor (Some \<lparr> given_hashBytes = None, given_saltBytes = None,
           given_digest = None, given_iterations = Some 1000 \<rparr>))
        (Some \<lparr> given_hashBytes = Some 16, given_saltBytes = None,
           given_digest = None, given_iterations = None \<rparr>)) = 777777"
  by (simp add: PBKDF2_constructor_def PBKDF2_temporalOptions_def assign_pbkdf2_def
      PBKDF2_defaults_def)

text \<open>
  C4, amended. For both KDF processors: when \<open>hash\<close> is called with an options object,
  every key present in it replaces and every key absent from it takes the built-in default,
  whatever options the constructor was given, so that the result of \<open>hash\<close> is the one of a
  processor constructed without options; when \<open>hash\<close> is called without an options
  object, it works with the options of the constructor, where every key given replaces the
  built-in default and every other key keeps it.
\<close>

theorem hash_options_merge:
  "PBKDF2_temporalOptions (PBKDF2_constructor ctor) (Some opts)
     = \<lparr> hashBytes = (case given_hashBytes opts of Some v \<Rightarrow> v | None \<Rightarrow> 32),
         saltBytes = (case given_saltBytes opts of Some v \<Rightarrow> v | None \<Rightarrow> 16),
         digest = (case given_digest opts of Some v \<Rightarrow> v | None \<Rightarrow> ''whirlpool''),
         iterations = (case given_iterations opts of Some v \<Rightarrow> v | None \<Rightarrow> 777777) \<rparr>
   \<and> PBKDF2_hash C (PBKDF2_constructor ctor) password (Some opts)
     = PBKDF2_hash C (PBKDF2_constructor None) password (Some opts)
   \<and> PBKDF2_temporalOptions (PBKDF2_constructor (Some given)) None
     = \<lparr> hashBytes = (case given_hashBytes given of Some v \<Rightarrow> v | None \<Rightarrow> 32),
         saltBytes = (case given_saltBytes given of Some v \<Rightarrow> v | None \<Rightarrow> 16),
         digest = (case given_digest given of Some v \<Rightarrow> v | None \<Rightarrow> ''whirlpool''),
         iterations = (case given_iterations given of Some v \<Rightarrow> v | None \<Rightarrow> 777777) \<rparr>
   \<and> scrypt_temporalOptions (scrypt_constructor sctor) (Some sopts)
     = \<lparr> keyLength = (case given_keyLength sopts of Some v \<Rightarrow> v | None \<Rightarrow> 64),
         scrypt_saltBytes = (case given_scrypt_saltBytes sopts of Some v \<Rightarrow> v | None \<Rightarrow> 16),
         cost = (case given_cost sopts of Some v \<Rightarrow> v | None \<Rightarrow> 16384),
         blockSize = (case given_blockSize sopts of Some v \<Rightarrow> v | None \<Rightarrow> 8),
         parallelization = (case given_parallelization sopts of Some v \<Rightarrow> v | None \<Rightarrow> 1),
         maxmem = (case given_maxmem sopts of Some v \<Rightarrow> v | None \<Rightarrow> 33554432) \<rparr>
   \<and> scrypt_hash C (scrypt_constructor sctor) password (Some sopts)
     = scrypt_hash C (scrypt_constructor None) password (Some sopts)
   \<and> scrypt_temporalOptions (scrypt_constructor (Some sgiven)) None
     = \<lparr> keyLength = (case given_keyLength sgiven of Some v \<Rightarrow> v | None \<Rightarrow> 64),
         scrypt_saltBytes = (case given_scrypt_saltBytes sgiven of Some v \<Rightarrow> v | None \<Rightarrow> 16),
         cost = (case given_cost sgiven of Some v \<Rightarrow> v | None \<Rightarrow> 16384),
         blockSize = (case given_blockSize sgiven of Some v \<Rightarrow> v | None \<Rightarrow> 8),
         parallelization = (case given_parallelization sgiven of Some v \<Rightarrow> v | None \<Rightarrow> 1),
         maxmem = (case given_maxmem sgiven of Some v \<Rightarrow> v | None \<Rightarrow> 33554432) \<rparr>"
  by (simp add: PBKDF2_temporalOptions_def PBKDF2_constructor_def assign_pbkdf2_def
      PBKDF2_defaults_def PBKDF2_hash_def scrypt_temporalOptions_def scrypt_constructor_def
      assign_scrypt_def scrypt_defaults_def scrypt_hash_def cong: option.case_cong)

text \<open>
  C10. The result of \<open>hash\<close> of the scrypt processor does not depend on \<open>maxmem\<close>, given
  to the call or to the constructor: the arguments of the derivation do not contain it.
\<close>

theorem scrypt_hash_ignores_maxmem:
  "scrypt_hash C this_options password (Some (opts\<lparr>given_maxmem := m1\<rparr>))
     = scrypt_hash C this_options password (Some (opts\<lparr>given_maxmem := m2\<rparr>))
   \<and> scrypt_hash C (scrypt_constructor (Some (given\<lparr>given_maxmem := m1\<rparr>))) password None
     = scrypt_hash C (scrypt_constructor (Some (given\<lparr>given_maxmem := m2\<rparr>))) password None
   \<and> scrypt_hash_arguments (temporalOptions\<lparr>maxmem := m\<rparr>) password salt
     = scrypt_hash_arguments temporalOptions password salt"
  by (simp add: scrypt_hash_def scrypt_temporalOptions_def scrypt_constructor_def
      assign_scrypt_def scrypt_hash_arguments_def Let_def cong: async_result.case_cong)

section \<open>The factory\<close>

text \<open>
  C6. The factory fails when no algorithm is enabled (a \<^verbatim>\<open>TypeError\<close>: the first
  element of an empty array has no \<^verbatim>\<open>toLowerCase\<close>), when two or more are enabled, and
  when the single enabled name, in lower case, is none of the four names.
\<close>

theorem factory_fails:
  "(enabled cfg = [] \<longrightarrow> UserCredentialProcessor cfg = Inl TypeError)
   \<and> (1 < length (enabled cfg) \<longrightarrow>
        UserCredentialProcessor cfg
          = Inl (Error ''UserCredentialProcessor: More than one algorithm enabled. ''))
   \<and> (\<forall>key. enabled cfg = [key]
          \<and> toLowerCase key \<notin> {''pbkdf2'', ''scrypt'', ''bcrypt'', ''argon2''} \<longrightarrow>
        UserCredentialProcessor cfg = Inl (Error ''UserCredentialProcessor: Unknown algorithm''))"
  by (auto simp: UserCredentialProcessor_def Let_def)

theorem factory_fails_witness:
  "enabled [(''pbkdf2'', JBool False), (''scrypt'', JNum 0)] = []
   \<and> UserCredentialProcessor [(''pbkdf2'', JBool False), (''scrypt'', JNum 0)] = Inl TypeError
   \<and> 1 < length (enabled [(''pbkdf2'', JBool True), (''Scrypt'', JStr ''yes'')])
   \<and> UserCredentialProcessor [(''pbkdf2'', JBool True), (''Scrypt'', JStr ''yes'')]
       = Inl (Error ''UserCredentialProcessor: More than one algorithm enabled. '')
   \<and> enabled [(''md5'', JBool True), (''scrypt'', JBool False)] = [''md5'']
   \<and> toLowerCase ''md5'' \<notin> {''pbkdf2'', ''scrypt'', ''bcrypt'', ''argon2''}
   \<and> UserCredentialProcessor [(''md5'', JBool True), (''scrypt'', JBool False)]
       = Inl (Error ''UserCredentialProcessor: Unknown algorithm'')"
proof -
  have a: "enabled [(''pbkdf2'', JBool False), (''scrypt'', JNum 0)] = []"
    by (simp add: enabled_def Object_keys_def get_def)
  have b: "1 < length (enabled [(''pbkdf2'', JBool True), (''Scrypt'', JStr ''yes'')])"
    by (simp add: enabled_def Object_keys_def get_def)
  have c: "enabled [(''md5'', JBool True), (''scrypt'', JBool False)] = [''md5'']"
    by (simp add: enabled_def Object_keys_def get_def)
  have d: "toLowerCase ''md5'' \<notin> {''pbkdf2'', ''scrypt'', ''bcrypt'', ''argon2''}"
    by (simp add: toLowerCase_def toLowerCase_char_def)
  show ?thesis
    using a b c d
      factory_fails [of "[(''pbkdf2'', JBool False), (''scrypt'', JNum 0)]"]
      factory_fails [of "[(''pbkdf2'', JBool True), (''Scrypt'', JStr ''yes'')]"]
      factory_fails [of "[(''md5'', JBool True), (''scrypt'', JBool False)]"]
    by blast
qed

text \<open>
  C7, as the claim states it, fails: for the configuration \<open>{pbkdf2: true}\<close> the factory
  returns a class, and neither \<open>hash\<close> nor \<open>compare\<close> is a method of the class itself.
\<close>

theorem factory_returns_instance_counterexample:
  "UserCredentialProcessor [(''pbkdf2'', JBool True)] = Inr (ProcessorClass PBKDF2)
   \<and> \<not> has_method (ProcessorClass PBKDF2) ''hash''
   \<and> \<not> has_method (ProcessorClass PBKDF2) ''compare''"
  by (simp add: UserCredentialProcessor_def enabled_def Object_keys_def get_def
      toLowerCase_def toLowerCase_char_def)

text \<open>
  C7, amended. When exactly one algorithm is enabled and its name, in lower case, is the
  name of one of the four backends, the factory returns a class that extends the processor
  class of that backend; an object created from this class with \<^verbatim>\<open>new\<close> has the methods
  \<open>hash\<close> and \<open>compare\<close>.
\<close>

theorem factory_returns_class:
  assumes "enabled cfg = [key]" and "toLowerCase key = backend_name b"
  shows "UserCredentialProcessor cfg = Inr (ProcessorClass b)
         \<and> new (ProcessorClass b) = Inr (ProcessorInstance b)
         \<and> has_method (ProcessorInstance b) ''hash''
         \<and> has_method (ProcessorInstance b) ''compare''"
  using assms by (cases b) (simp_all add: UserCredentialProcessor_def)

theorem factory_returns_class_witness:
  "enabled [(''bcrypt'', JNull), (''ScRypt'', JNum 1)] = [''ScRypt'']
   \<and> toLowerCase ''ScRypt'' = backend_name Scrypt
   \<and> UserCredentialProcessor [(''bcrypt'', JNull), (''ScRypt'', JNum 1)]
       = Inr (ProcessorClass Scrypt)
   \<and> new (ProcessorClass Scrypt) = Inr (ProcessorInstance Scrypt)
   \<and> has_method (ProcessorInstance Scrypt) ''hash''
   \<and> has_method (ProcessorInstance Scrypt) ''compare''"
proof -
  have a: "enabled [(''bcrypt'', JNull), (''ScRypt'', JNum 1)] = [''ScRypt'']"
    by (simp add: enabled_def Object_keys_def get_def)
  have b: "toLowerCase ''ScRypt'' = backend_name Scrypt"
    by code_simp
  from factory_returns_class [OF a b] a b show ?thesis by simp
qed

section \<open>The KDF processors\<close>

subsection \<open>What \<open>compare\<close> decodes\<close>

lemma decode_short:
  "length (Buffer_from_hex stored) < 8 \<Longrightarrow> decode stored = Inl RangeError"
  by (simp add: decode_def readUInt32BE_def Let_def)

lemma decode_long:
  assumes "8 \<le> length (Buffer_from_hex stored)"
  shows "\<exists>saltLength param.
           readUInt32BE (Buffer_from_hex stored) 0 = Inr saltLength
         \<and> decode stored
             = Inr \<lparr> d_salt = slice_buffer (Buffer_from_hex stored) 8 (nat (saltLength + 8)),
                     d_hashBytes = int (length (Buffer_from_hex stored)) - saltLength - 8,
                     d_iterations = param,
                     d_hash = toString_binary (Buffer_from_hex stored) (nat (saltLength + 8)) \<rparr>"
  using assms by (simp add: decode_def readUInt32BE_def Let_def)

lemma decode_record:
  assumes "Buffer_from_hex stored = record_layout salt param key"
    and "length salt < 4294967296" "0 \<le> param" "param < 4294967296"
  shows "decode stored
         = Inr \<lparr> d_salt = salt, d_hashBytes = int (length key), d_iterations = param,
                 d_hash = toString_binary key 0 \<rparr>"
proof -
  have "decode stored = decode (toString_hex (record_layout salt param key))"
    by (simp add: decode_def assms(1) Buffer_from_hex_toString_hex)
  then show ?thesis using decode_layout [OF assms(2-4)] by simp
qed

subsection \<open>PBKDF2\<close>

lemma PBKDF2_hash_Resolved:
  assumes "PBKDF2_hash C this_options password options = Resolved stored"
    and "t = PBKDF2_temporalOptions this_options options"
  shows "\<exists>salt key. randomBytes C (saltBytes t) = CallbackOk salt
         \<and> pbkdf2 C password (Some salt) (iterations t) (hashBytes t) (digest t) = CallbackOk key
         \<and> encode salt (iterations t) key = Inr stored"
  using assms
  by (auto simp: PBKDF2_hash_def Let_def split: async_result.splits sum.splits)

lemma PBKDF2_compare_record:
  assumes "Buffer_from_hex stored = record_layout salt param key"
    and "length salt < 4294967296" "0 \<le> param" "param < 4294967296"
  shows "PBKDF2_compare C incoming stored
         = (case pbkdf2 C incoming (Some salt) param (int (length key)) (digest PBKDF2_defaults) of
              Throws e \<Rightarrow> Rejected e
            | CallbackError e \<Rightarrow> Uncaught (Some e) TypeError
            | CallbackOk verify \<Rightarrow> Resolved (verify = key))"
  by (simp add: PBKDF2_compare_def decode_record [OF assms] toString_binary_inject
      cong: async_result.case_cong)

text \<open>
  The PBKDF2 processor verifies what it hashed, whatever salt was drawn, when the digest in
  use is the default one and the derivation returns a key of the length asked for.
\<close>

lemma PBKDF2_compare_hash:
  assumes "PBKDF2_hash C this_options password options = Resolved stored"
    and "t = PBKDF2_temporalOptions this_options options"
    and "digest t = digest PBKDF2_defaults"
    and "\<And>salt key. pbkdf2 C password (Some salt) (iterations t) (hashBytes t) (digest t)
            = CallbackOk key \<Longrightarrow> int (length key) = hashBytes t"
  shows "PBKDF2_compare C password stored = Resolved True"
proof -
  from PBKDF2_hash_Resolved [OF assms(1,2)] obtain salt key where
    k: "pbkdf2 C password (Some salt) (iterations t) (hashBytes t) (digest t) = CallbackOk key"
    and e: "encode salt (iterations t) key = Inr stored"
    by blast
  from encode_Inr [OF e] have r: "length salt < 4294967296" "0 \<le> iterations t"
    "iterations t < 4294967296" "Buffer_from_hex stored = record_layout salt (iterations t) key"
    by (simp_all add: Buffer_from_hex_toString_hex)
  from assms(4) [OF k] have l: "int (length key) = hashBytes t" .
  show ?thesis
    unfolding PBKDF2_compare_record [OF r(4) r(1-3)] l assms(3) [symmetric] k by simp
qed

text \<open>On the test double, with the defaults and the empty password:\<close>

lemma PBKDF2_compare_hash_defaults:
  "PBKDF2_hash test_crypto (PBKDF2_constructor None) '''' None
     = Resolved (toString_hex (uint32be 16 @ uint32be 777777 @ replicate 16 165 @ replicate 32 74))
   \<and> PBKDF2_compare test_crypto ''''
       (toString_hex (uint32be 16 @ uint32be 777777 @ replicate 16 165 @ replicate 32 74))
     = Resolved True"
proof -
  let ?t = "PBKDF2_temporalOptions (PBKDF2_constructor None) None"
  have h: "PBKDF2_hash test_crypto (PBKDF2_constructor None) '''' None
     = Resolved (toString_hex (uint32be 16 @ uint32be 777777 @ replicate 16 165 @ replicate 32 74))"
    by code_simp
  have d: "digest ?t = digest PBKDF2_defaults"
    by (simp add: PBKDF2_temporalOptions_def PBKDF2_constructor_def)
  have l: "int (length key) = hashBytes ?t"
    if "pbkdf2 test_crypto '''' (Some salt) (iterations ?t) (hashBytes ?t) (digest ?t)
        = CallbackOk key" for salt key
    using that
    by (auto simp: test_crypto_def test_pbkdf2_def PBKDF2_temporalOptions_def
        PBKDF2_constructor_def PBKDF2_defaults_def split: if_splits)
  from PBKDF2_compare_hash [OF h refl d l] h show ?thesis by simp
qed

text \<open>
  C9. A stored string that decodes to a well-formed record
  \<open>uint32be(len(salt)) || uint32be(iterations) || salt || key\<close>, compared with an incoming
  password for which the derivation returns a key other than the stored one: \<open>compare\<close>
  resolves \<open>false\<close>.
\<close>

theorem PBKDF2_compare_mismatch:
  assumes "Buffer_from_hex stored
           = uint32be (int (length salt)) @ uint32be rounds @ salt @ key"
    and "length salt < 4294967296" and "0 \<le> rounds" and "rounds < 4294967296"
    and "pbkdf2 C incoming (Some salt) rounds (int (length key)) (digest PBKDF2_defaults)
         = CallbackOk verify"
    and "verify \<noteq> key"
  shows "PBKDF2_compare C incoming stored = Resolved False"
proof -
  have r: "Buffer_from_hex stored = record_layout salt rounds key"
    using assms(1) by (simp add: record_layout_def)
  show ?thesis
    unfolding PBKDF2_compare_record [OF r assms(2-4)] assms(5) using assms(6) by simp
qed

theorem PBKDF2_compare_mismatch_witness:
  "Buffer_from_hex ''0000000200000005A5a5121212''
     = uint32be (int (length [165, 165 :: byte])) @ uint32be 5 @ [165, 165] @ [18, 18, 18]
   \<and> pbkdf2 test_crypto ''pW'' (Some [165, 165]) 5 (int (length [18, 18, 18 :: byte]))
       (digest PBKDF2_defaults) = CallbackOk [18, 18, 18]
   \<and> pbkdf2 test_crypto ''other'' (Some [165, 165]) 5 (int (length [18, 18, 18 :: byte]))
       (digest PBKDF2_defaults) = CallbackOk [21, 21, 21]
   \<and> [21, 21, 21] \<noteq> [18, 18, 18 :: byte]
   \<and> PBKDF2_compare test_crypto ''other'' ''0000000200000005A5a5121212'' = Resolved False"
proof -
  have a: "Buffer_from_hex ''0000000200000005A5a5121212''
     = uint32be (int (length [165, 165 :: byte])) @ uint32be 5 @ [165, 165] @ [18, 18, 18]"
    by code_simp
  have b: "pbkdf2 test_crypto ''pW'' (Some [165, 165]) 5 (int (length [18, 18, 18 :: byte]))
       (digest PBKDF2_defaults) = CallbackOk [18, 18, 18]"
    by code_simp
  have c: "pbkdf2 test_crypto ''other'' (Some [165, 165]) 5 (int (length [18, 18, 18 :: byte]))
       (digest PBKDF2_defaults) = CallbackOk [21, 21, 21]"
    by code_simp
  have d: "[21, 21, 21] \<noteq> [18, 18, 18 :: byte]" by simp
  have s: "length [165, 165 :: byte] < 4294967296" "(0::int) \<le> 5" "(5::int) < 4294967296"
    by simp_all
  from PBKDF2_compare_mismatch [OF a s c d] a b c d show ?thesis by simp
qed

text \<open>
  C8. \<open>compare\<close> derives with the digest of the built-in defaults, whatever digest the
  constructor or the call of \<open>hash\<close> was given: on a record that \<open>hash\<close> resolved with
  the salt \<open>salt\<close> and the key \<open>key\<close> under any options, the result of \<open>compare\<close> for
  any incoming password is decided by the derivation from the incoming password, the salt,
  the iterations and the key length of the record and the default digest, and by nothing
  else. So when that derivation returns another key for the password that was hashed,
  \<open>compare\<close> resolves \<open>false\<close> for it.
\<close>

theorem PBKDF2_compare_default_digest:
  assumes "PBKDF2_hash C this_options password options = Resolved stored"
    and "t = PBKDF2_temporalOptions this_options options"
    and "randomBytes C (saltBytes t) = CallbackOk salt"
    and "pbkdf2 C password (Some salt) (iterations t) (hashBytes t) (digest t) = CallbackOk key"
  shows "PBKDF2_compare C incoming stored
           = (case pbkdf2 C incoming (Some salt) (iterations t) (int (length key))
                     (digest PBKDF2_defaults) of
                Throws e \<Rightarrow> Rejected e
              | CallbackError e \<Rightarrow> Uncaught (Some e) TypeError
              | CallbackOk verify \<Rightarrow> Resolved (verify = key))
         \<and> digest PBKDF2_defaults = ''whirlpool''
         \<and> (\<forall>verify.
               pbkdf2 C password (Some salt) (iterations t) (int (length key))
                 (digest PBKDF2_defaults) = CallbackOk verify
             \<and> verify \<noteq> key \<longrightarrow>
               PBKDF2_compare C password stored = Resolved False)"
proof -
  from PBKDF2_hash_Resolved [OF assms(1,2)] assms(3,4)
  have e: "encode salt (iterations t) key = Inr stored" by auto
  from encode_Inr [OF e] have r: "length salt < 4294967296" "0 \<le> iterations t"
    "iterations t < 4294967296" "Buffer_from_hex stored = record_layout salt (iterations t) key"
    by (simp_all add: Buffer_from_hex_toString_hex)
  note c = PBKDF2_compare_record [OF r(4) r(1-3)]
  have "PBKDF2_compare C password stored = Resolved False"
    if "pbkdf2 C password (Some salt) (iterations t) (int (length key))
          (digest PBKDF2_defaults) = CallbackOk verify" and "verify \<noteq> key" for verify
    unfolding c that(1) using that(2) by simp
  then show ?thesis
    using c [of C incoming] by (auto simp: PBKDF2_defaults_def)
qed

theorem PBKDF2_compare_default_digest_witness:
  "PBKDF2_hash test_crypto (PBKDF2_constructor None) ''pw''
     (Some \<lparr> given_hashBytes = Some 3, given_saltBytes = Some 2,
             given_digest = Some ''sha512'', given_iterations = Some 5 \<rparr>)
     = Resolved ''0000000200000005a5a50f0f0f''
   \<and> randomBytes test_crypto 2 = CallbackOk [165, 165]
   \<and> pbkdf2 test_crypto ''pw'' (Some [165, 165]) 5 3 ''sha512'' = CallbackOk [15, 15, 15]
   \<and> pbkdf2 test_crypto ''pw'' (Some [165, 165]) 5 3 ''whirlpool'' = CallbackOk [18, 18, 18]
   \<and> PBKDF2_compare test_crypto ''pw'' ''0000000200000005a5a50f0f0f'' = Resolved False
   \<and> pbkdf2 test_crypto ''abcde'' (Some [165, 165]) 5 3 ''whirlpool'' = CallbackOk [21, 21, 21]
   \<and> PBKDF2_compare test_crypto ''abcde'' ''0000000200000005a5a50f0f0f''
       = Resolved ([21, 21, 21] = [15, 15, 15 :: byte])"
proof -
  let ?given = "\<lparr> given_hashBytes = Some 3, given_saltBytes = Some 2,
             given_digest = Some ''sha512'', given_iterations = Some 5 \<rparr>"
  let ?t = "\<lparr> hashBytes = 3, saltBytes = 2, digest = ''sha512'', iterations = 5 \<rparr>"
  have t: "?t = PBKDF2_temporalOptions (PBKDF2_constructor None) (Some ?given)"
    by (simp add: PBKDF2_temporalOptions_def assign_pbkdf2_def)
  have h: "PBKDF2_hash test_crypto (PBKDF2_constructor None) ''pw'' (Some ?given)
           = Resolved ''0000000200000005a5a50f0f0f''"
    by code_simp
  have r: "randomBytes test_crypto (saltBytes ?t) = CallbackOk [165, 165]"
    by code_simp
  have k: "pbkdf2 test_crypto ''pw'' (Some [165, 165]) (iterations ?t) (hashBytes ?t) (digest ?t)
           = CallbackOk [15, 15, 15]"
    by code_simp
  have v: "pbkdf2 test_crypto ''pw'' (Some [165, 165]) (iterations ?t)
             (int (length [15, 15, 15 :: byte])) (digest PBKDF2_defaults)
           = CallbackOk [18, 18, 18]"
    by code_simp
  have w: "pbkdf2 test_crypto ''abcde'' (Some [165, 165]) (iterations ?t)
             (int (length [15, 15, 15 :: byte])) (digest PBKDF2_defaults)
           = CallbackOk [21, 21, 21]"
    by code_simp
  have d: "[18, 18, 18] \<noteq> [15, 15, 15 :: byte]" by simp
  note th = PBKDF2_compare_default_digest [OF h t r k]
  from th [of "''pw''"] v d
  have 1: "PBKDF2_compare test_crypto ''pw'' ''0000000200000005a5a50f0f0f'' = Resolved False"
    by blast
  from th [of "''abcde''"] w
  have 2: "PBKDF2_compare test_crypto ''abcde'' ''0000000200000005a5a50f0f0f''
       = Resolved ([21, 21, 21] = [15, 15, 15 :: byte])"
    by simp
  from 1 2 h r k v w show ?thesis by (simp add: PBKDF2_defaults_def)
qed

subsection \<open>scrypt\<close>

lemma scrypt_hash_Resolved:
  assumes "scrypt_hash C this_options password options = Resolved stored"
    and "t = scrypt_temporalOptions this_options options"
  shows "\<exists>salt key. randomBytes C (scrypt_saltBytes t) = CallbackOk salt
         \<and> scrypt C (scrypt_hash_arguments t password salt) = CallbackOk key
         \<and> encode salt (keyLength t) key = Inr stored"
  using assms
  by (auto simp: scrypt_hash_def Let_def split: async_result.splits sum.splits)

text \<open>
  The call of \<^verbatim>\<open>crypto.scrypt\<close> in \<open>compare\<close> has a number in fourth position,
  \<^verbatim>\<open>undefined\<close> in fifth, and its callback in sixth. When the function throws on such
  a call, as its signature \<^verbatim>\<open>scrypt(password, salt, keylen[, options], callback)\<close> says,
  \<open>compare\<close> rejects whatever is stored.
\<close>

lemma scrypt_compare_Rejected:
  assumes "\<And>args. argument args 4 = JUndefined \<Longrightarrow> argument args 3 \<noteq> JFun
             \<Longrightarrow> \<exists>e. scrypt C args = Throws e"
  shows "\<exists>e. scrypt_compare C incoming stored = Rejected e"
proof (cases "decode stored")
  case (Inl e)
  then show ?thesis by (simp add: scrypt_compare_def)
next
  case (Inr d)
  have "argument (scrypt_compare_arguments incoming d) 4 = JUndefined"
    "argument (scrypt_compare_arguments incoming d) 3 \<noteq> JFun"
    by (simp_all add: argument_def scrypt_compare_arguments_def)
  from assms [OF this] obtain e where
    "scrypt C (scrypt_compare_arguments incoming d) = Throws e" by blast
  with Inr show ?thesis by (simp add: scrypt_compare_def)
qed

lemma test_scrypt_signature:
  "argument args 4 = JUndefined \<Longrightarrow> argument args 3 \<noteq> JFun
   \<Longrightarrow> \<exists>e. scrypt test_crypto args = Throws e"
  by (simp add: test_crypto_def test_scrypt_def)

text \<open>
  C1, where the code fails it. With the scrypt processor, \<open>compare\<close> applied to the
  string that \<open>hash\<close> resolved rejects, for every password, every options and every salt:
  it does not resolve \<open>true\<close>. The hypothesis is the signature of \<^verbatim>\<open>crypto.scrypt\<close>.
\<close>

theorem scrypt_compare_hash_rejects:
  assumes "\<And>args. argument args 4 = JUndefined \<Longrightarrow> argument args 3 \<noteq> JFun
             \<Longrightarrow> \<exists>e. scrypt C args = Throws e"
    and "scrypt_hash C this_options password options = Resolved stored"
  shows "\<exists>e. scrypt_compare C password stored = Rejected e"
  using scrypt_compare_Rejected [of C password stored] assms(1) by blast

theorem scrypt_compare_hash_rejects_witness:
  "scrypt_hash test_crypto (scrypt_constructor None) '''' None
     = Resolved (toString_hex (uint32be 16 @ uint32be 64 @ replicate 16 165 @ replicate 64 16))
   \<and> (\<exists>e. scrypt_compare test_crypto ''''
         (toString_hex (uint32be 16 @ uint32be 64 @ replicate 16 165 @ replicate 64 16))
          = Rejected e)"
proof -
  have h: "scrypt_hash test_crypto (scrypt_constructor None) '''' None
     = Resolved (toString_hex (uint32be 16 @ uint32be 64 @ replicate 16 165 @ replicate 64 16))"
    by code_simp
  from scrypt_compare_hash_rejects [OF test_scrypt_signature h] h
  show ?thesis by simp
qed

lemma scrypt_compare_record:
  assumes "Buffer_from_hex stored = record_layout salt param key"
    and "length salt < 4294967296" "0 \<le> param" "param < 4294967296"
  shows "scrypt_compare C incoming stored
         = (case scrypt C [JStr incoming, JBuf salt, JNum param, JNum (int (length key)),
                           JUndefined, JFun] of
              Throws e \<Rightarrow> Rejected e
            | CallbackError e \<Rightarrow> Rejected e
            | CallbackOk verify \<Rightarrow> Resolved (verify = key))"
  by (simp add: scrypt_compare_def scrypt_compare_arguments_def decode_record [OF assms]
      toString_binary_inject cong: async_result.case_cong)

text \<open>
  C3. When \<open>hash\<close> of the scrypt processor resolves, the number at offset 4 of the record
  is the \<open>keyLength\<close> in use (the \<open>cost\<close> is not stored), and \<open>compare\<close> on this record
  is the call of \<^verbatim>\<open>crypto.scrypt\<close> with that number in third position, where the key
  length belongs, followed by the length of the stored key and \<^verbatim>\<open>undefined\<close>: no
  options object with a cost is passed, and the outcome of that call decides the result.
\<close>

theorem scrypt_record_keyLength:
  assumes "scrypt_hash C this_options password options = Resolved stored"
    and "t = scrypt_temporalOptions this_options options"
  shows "readUInt32BE (Buffer_from_hex stored) 4 = Inr (keyLength t)
         \<and> (\<exists>d salt key.
               randomBytes C (scrypt_saltBytes t) = CallbackOk salt
             \<and> scrypt C (scrypt_hash_arguments t password salt) = CallbackOk key
             \<and> decode stored = Inr d
             \<and> scrypt_compare_arguments incoming d
                 = [JStr incoming, JBuf salt, JNum (keyLength t), JNum (int (length key)),
                    JUndefined, JFun]
             \<and> scrypt_compare C incoming stored
                 = (case scrypt C [JStr incoming, JBuf salt, JNum (keyLength t),
                                   JNum (int (length key)), JUndefined, JFun] of
                      Throws e \<Rightarrow> Rejected e
                    | CallbackError e \<Rightarrow> Rejected e
                    | CallbackOk verify \<Rightarrow> Resolved (verify = key)))"
proof -
  from scrypt_hash_Resolved [OF assms] obtain salt key where
    s: "randomBytes C (scrypt_saltBytes t) = CallbackOk salt"
    and k: "scrypt C (scrypt_hash_arguments t password salt) = CallbackOk key"
    and e: "encode salt (keyLength t) key = Inr stored"
    by blast
  from encode_Inr [OF e] have r: "length salt < 4294967296" "0 \<le> keyLength t"
    "keyLength t < 4294967296" "Buffer_from_hex stored = record_layout salt (keyLength t) key"
    by (simp_all add: Buffer_from_hex_toString_hex)
  have "readUInt32BE (Buffer_from_hex stored) 4 = Inr (keyLength t)"
    unfolding r(4) record_layout_def
    using readUInt32BE_uint32be [OF r(2,3), of "uint32be (int (length salt))" "salt @ key"]
    by simp
  moreover have "scrypt_compare_arguments incoming
       \<lparr> d_salt = salt, d_hashBytes = int (length key), d_iterations = keyLength t,
         d_hash = toString_binary key 0 \<rparr>
     = [JStr incoming, JBuf salt, JNum (keyLength t), JNum (int (length key)), JUndefined, JFun]"
    by (simp add: scrypt_compare_arguments_def)
  ultimately show ?thesis
    using s k decode_record [OF r(4) r(1-3)] scrypt_compare_record [OF r(4) r(1-3), of C incoming]
    by blast
qed

theorem scrypt_record_keyLength_witness:
  "scrypt_hash test_crypto (scrypt_constructor None) ''pw''
     (Some \<lparr> given_keyLength = Some 3, given_scrypt_saltBytes = Some 2, given_cost = Some 1024,
             given_blockSize = None, given_parallelization = None, given_maxmem = None \<rparr>)
     = Resolved ''0000000200000003a5a5040404''
   \<and> readUInt32BE (Buffer_from_hex ''0000000200000003a5a5040404'') 4 = Inr 3
   \<and> (\<exists>d. decode ''0000000200000003a5a5040404'' = Inr d
          \<and> scrypt_compare_arguments ''pw'' d
              = [JStr ''pw'', JBuf [165, 165], JNum 3, JNum 3, JUndefined, JFun])
   \<and> scrypt_compare test_crypto ''pw'' ''0000000200000003a5a5040404''
       = (case scrypt test_crypto [JStr ''pw'', JBuf [165, 165], JNum 3, JNum 3, JUndefined, JFun] of
            Throws e \<Rightarrow> Rejected e
          | CallbackError e \<Rightarrow> Rejected e
          | CallbackOk verify \<Rightarrow> Resolved (verify = [4, 4, 4]))
   \<and> scrypt_compare test_crypto ''pw'' ''0000000200000003a5a5040404'' = Rejected TypeError"
proof -
  let ?given = "\<lparr> given_keyLength = Some 3, given_scrypt_saltBytes = Some 2,
             given_cost = Some 1024,
             given_blockSize = None, given_parallelization = None, given_maxmem = None \<rparr>"
  let ?t = "\<lparr> keyLength = 3, scrypt_saltBytes = 2, cost = 1024, blockSize = 8,
              parallelization = 1, maxmem = 33554432 \<rparr>"
  have t: "?t = scrypt_temporalOptions (scrypt_constructor None) (Some ?given)"
    by (simp add: scrypt_temporalOptions_def assign_scrypt_def scrypt_defaults_def)
  have h: "scrypt_hash test_crypto (scrypt_constructor None) ''pw'' (Some ?given)
           = Resolved ''0000000200000003a5a5040404''"
    by code_simp
  have r: "randomBytes test_crypto (scrypt_saltBytes ?t) = CallbackOk [165, 165]"
    by code_simp
  have k: "scrypt test_crypto (scrypt_hash_arguments ?t ''pw'' [165, 165]) = CallbackOk [4, 4, 4]"
    by code_simp
  have c: "scrypt test_crypto [JStr ''pw'', JBuf [165, 165], JNum 3, JNum 3, JUndefined, JFun]
           = Throws TypeError"
    by code_simp
  from scrypt_record_keyLength [OF h t, of "''pw''"] h r k c
  show ?thesis by auto
qed

text \<open>
  C5, as the claim states it, fails: a stored string that is not valid hex is not
  rejected. A record followed by \<open>zz\<close> is decoded up to the \<open>zz\<close>, and \<open>compare\<close>
  resolves \<open>true\<close> for the password of the record.
\<close>

theorem PBKDF2_compare_invalid_hex_counterexample:
  "\<not> is_hex ''0000000200000005a5a5121212zz''
   \<and> PBKDF2_compare test_crypto ''pw'' ''0000000200000005a5a5121212zz'' = Resolved True"
  by code_simp

text \<open>
  C5, amended. \<open>compare\<close> works on the bytes decoded from the longest prefix of the
  stored string that consists of pairs of hexadecimal digits; characters that are not
  hexadecimal digits are not rejected. When fewer than 8 bytes are decoded, \<open>compare\<close>
  of both processors rejects with a \<^verbatim>\<open>RangeError\<close>. When 8 plus the salt length read
  at offset 0 exceeds the number of bytes decoded, \<open>compare\<close> of both processors rejects,
  provided \<^verbatim>\<open>crypto.pbkdf2\<close> throws on a negative key length and
  \<^verbatim>\<open>crypto.scrypt\<close> on a call that has no function as fourth or fifth argument. In
  neither case is a boolean resolved.
\<close>

theorem compare_rejects_truncated:
  assumes "\<And>password salt rounds keylen algorithm. keylen < 0
             \<Longrightarrow> \<exists>e. pbkdf2 C password salt rounds keylen algorithm = Throws e"
    and "\<And>args. argument args 4 = JUndefined \<Longrightarrow> argument args 3 \<noteq> JFun
             \<Longrightarrow> \<exists>e. scrypt C args = Throws e"
  shows "(length (Buffer_from_hex stored) < 8 \<longrightarrow>
            PBKDF2_compare C incoming stored = Rejected RangeError
          \<and> scrypt_compare C incoming stored = Rejected RangeError)
       \<and> (\<forall>saltLength.
             readUInt32BE (Buffer_from_hex stored) 0 = Inr saltLength
           \<and> int (length (Buffer_from_hex stored)) < 8 + saltLength \<longrightarrow>
             (\<exists>e. PBKDF2_compare C incoming stored = Rejected e)
           \<and> (\<exists>e. scrypt_compare C incoming stored = Rejected e))"
proof (intro conjI impI allI)
  assume "length (Buffer_from_hex stored) < 8"
  then have "decode stored = Inl RangeError" by (rule decode_short)
  then show "PBKDF2_compare C incoming stored = Rejected RangeError"
    and "scrypt_compare C incoming stored = Rejected RangeError"
    by (simp_all add: PBKDF2_compare_def scrypt_compare_def)
next
  fix saltLength
  assume a: "readUInt32BE (Buffer_from_hex stored) 0 = Inr saltLength
           \<and> int (length (Buffer_from_hex stored)) < 8 + saltLength"
  show "\<exists>e. scrypt_compare C incoming stored = Rejected e"
    using scrypt_compare_Rejected [of C incoming stored] assms(2) by blast
  show "\<exists>e. PBKDF2_compare C incoming stored = Rejected e"
  proof (cases "decode stored")
    case (Inl e)
    then show ?thesis by (simp add: PBKDF2_compare_def)
  next
    case (Inr d)
    then have "8 \<le> length (Buffer_from_hex stored)"
      using decode_short [of stored] by (cases "length (Buffer_from_hex stored) < 8") simp_all
    from decode_long [OF this] a Inr
    have "d_hashBytes d = int (length (Buffer_from_hex stored)) - saltLength - 8" by auto
    with a have "d_hashBytes d < 0" by simp
    from assms(1) [OF this] obtain e where
      "pbkdf2 C incoming (Some (d_salt d)) (d_iterations d) (d_hashBytes d)
         (digest PBKDF2_defaults) = Throws e"
      by blast
    with Inr show ?thesis by (simp add: PBKDF2_compare_def)
  qed
qed

lemma test_pbkdf2_keylen:
  "keylen < 0 \<Longrightarrow> \<exists>e. pbkdf2 test_crypto password salt rounds keylen algorithm = Throws e"
  by (simp add: test_crypto_def test_pbkdf2_def split: option.split)

theorem compare_rejects_truncated_witness:
  "length (Buffer_from_hex ''00000002zz'') < 8
   \<and> PBKDF2_compare test_crypto ''pw'' ''00000002zz'' = Rejected RangeError
   \<and> scrypt_compare test_crypto ''pw'' ''00000002zz'' = Rejected RangeError
   \<and> readUInt32BE (Buffer_from_hex ''0000001000000005a5a5'') 0 = Inr 16
   \<and> int (length (Buffer_from_hex ''0000001000000005a5a5'')) < 8 + 16
   \<and> (\<exists>e. PBKDF2_compare test_crypto ''pw'' ''0000001000000005a5a5'' = Rejected e)
   \<and> (\<exists>e. scrypt_compare test_crypto ''pw'' ''0000001000000005a5a5'' = Rejected e)"
proof -
  have a: "length (Buffer_from_hex ''00000002zz'') < 8" by code_simp
  have b: "readUInt32BE (Buffer_from_hex ''0000001000000005a5a5'') 0 = Inr 16" by code_simp
  have c: "int (length (Buffer_from_hex ''0000001000000005a5a5'')) < 8 + 16" by code_simp
  note t1 = compare_rejects_truncated [OF test_pbkdf2_keylen test_scrypt_signature,
      of "''00000002zz''" "''pw''"]
  note t2 = compare_rejects_truncated [OF test_pbkdf2_keylen test_scrypt_signature,
      of "''0000001000000005a5a5''" "''pw''"]
  from t1 a have 1: "PBKDF2_compare test_crypto ''pw'' ''00000002zz'' = Rejected RangeError"
    "scrypt_compare test_crypto ''pw'' ''00000002zz'' = Rejected RangeError"
    by blast+
  from t2 b c have 2: "\<exists>e. PBKDF2_compare test_crypto ''pw'' ''0000001000000005a5a5'' = Rejected e"
    "\<exists>e. scrypt_compare test_crypto ''pw'' ''0000001000000005a5a5'' = Rejected e"
    by blast+
  show ?thesis
    using a b c 1 2 by blast
qed

end
